theory Spec2Isabelle
  imports Complex_Main "HOL-Library.List_Lexorder" "HOL-Library.Char_ord" "HOL-Library.Sublist"
begin

section \<open>Data model\<close>

text \<open>
  The dashboard of \<^verbatim>\<open>app.py\<close> works on one pandas DataFrame read from
  \<^verbatim>\<open>vehicles.csv\<close>. A row is a \<open>listing\<close>; a cell that pandas holds as NaN / None is
  \<open>None\<close>. Columns of dtype float64 or int64 (year, price, lat, long) are modelled by
  \<open>real\<close>: the rounding of single floating-point operations is not part of the model.
  A frame carries the list of its column labels, since \<^verbatim>\<open>df['c']\<close> and
  \<^verbatim>\<open>dropna(subset=...)\<close> raise KeyError for a label that is absent.

  The model and the five categorical columns hold what \<^verbatim>\<open>read_csv\<close> found in the file:
  a number where the text of the column parsed as numbers (a cylinders column of
  \<^verbatim>\<open>8, 10\<close>, a model column of \<^verbatim>\<open>20, 150\<close>), a string otherwise. pandas compares
  numbers by value and strings character by character; where it has to order values of
  both kinds (the keys of a \<^verbatim>\<open>groupby\<close>) it puts the numbers first.
\<close>

datatype cell = Num real | Str string

definition is_str :: "cell \<Rightarrow> bool" where
  "is_str c = (case c of Num x \<Rightarrow> False | Str s \<Rightarrow> True)"

instantiation cell :: linorder
begin

definition less_eq_cell :: "cell \<Rightarrow> cell \<Rightarrow> bool" where
  "less_eq_cell c d =
    (case c of
       Num x \<Rightarrow> (case d of Num y \<Rightarrow> x \<le> y | Str t \<Rightarrow> True)
     | Str s \<Rightarrow> (case d of Num y \<Rightarrow> False | Str t \<Rightarrow> s \<le> t))"

definition less_cell :: "cell \<Rightarrow> cell \<Rightarrow> bool" where
  "less_cell c d = (c \<le> d \<and> \<not> d \<le> c)"

instance
  by standard (auto simp: less_eq_cell_def less_cell_def split: cell.splits)

end

record listing =
  manufacturer :: "string option"
  model :: "cell option"
  year :: "real option"
  price :: "real option"
  lat :: "real option"
  long :: "real option"
  cylinders :: "cell option"
  fuel :: "cell option"
  drive :: "cell option"
  vtype :: "cell option"
  transmission :: "cell option"

record frame =
  columns :: "string list"
  rows :: "listing list"

text \<open>The exceptions: whatever \<^verbatim>\<open>read_csv\<close> raises (a missing file, a parse error),
  the KeyError of a missing column label with the labels it names, \<^verbatim>\<open>re.error\<close> for
  a pattern that does not compile, the AttributeError of the \<^verbatim>\<open>.str\<close> accessor on
  values that are not strings, and the ValueError of indexing with a mask that holds NaN.
  \<open>NotModelled\<close> is not an exception of the program: it marks a pattern outside the
  fragment of regular expressions that \<open>re_dot\<close> below covers.\<close>

datatype error =
    ReadError string
  | KeyError "string list"
  | ReError string
  | AttributeError
  | ValueError
  | NotModelled

text \<open>What \<^verbatim>\<open>st.error\<close> shows.\<close>

datatype message = Error_loading_data error

text \<open>\<^verbatim>\<open>pd.DataFrame()\<close>: no columns, no rows.\<close>

definition empty_frame :: frame where
  "empty_frame = \<lparr>columns = [], rows = []\<rparr>"

text \<open>\<^verbatim>\<open>df.empty\<close>: some axis has length 0.\<close>

definition df_empty :: "frame \<Rightarrow> bool" where
  "df_empty df \<longleftrightarrow> columns df = [] \<or> rows df = []"

text \<open>Whether the cell of row \<open>r\<close> under label \<open>c\<close> is null; a column the model does
  not track is never null.\<close>

definition isnull :: "listing \<Rightarrow> string \<Rightarrow> bool" where
  "isnull r c =
    (if c = ''manufacturer'' then manufacturer r = None
     else if c = ''model'' then model r = None
     else if c = ''year'' then year r = None
     else if c = ''price'' then price r = None
     else if c = ''lat'' then lat r = None
     else if c = ''long'' then long r = None
     else if c = ''cylinders'' then cylinders r = None
     else if c = ''fuel'' then fuel r = None
     else if c = ''drive'' then drive r = None
     else if c = ''type'' then vtype r = None
     else if c = ''transmission'' then transmission r = None
     else False)"

text \<open>\<^verbatim>\<open>df.dropna(subset=labels)\<close>: KeyError listing the labels that are not columns,
  else the rows with no null under any of the labels, in their order.\<close>

definition dropna :: "string list \<Rightarrow> frame \<Rightarrow> error + frame" where
  "dropna labels df =
    (let missing = filter (\<lambda>c. c \<notin> set (columns df)) labels in
     if missing \<noteq> [] then Inl (KeyError missing)
     else Inr (df\<lparr>rows := filter (\<lambda>r. list_all (\<lambda>c. \<not> isnull r c) labels) (rows df)\<rparr>))"

section \<open>Dataset loader\<close>

definition required :: "string list" where
  "required = [''manufacturer'', ''model'', ''year'', ''price'', ''lat'', ''long'',
               ''cylinders'', ''fuel'', ''drive'']"

text \<open>
  \<^verbatim>\<open>load_data\<close>. The argument is the outcome of \<^verbatim>\<open>pd.read_csv("vehicles.csv")\<close>:
  \<open>Inl e\<close> when it raises an exception \<open>e\<close>, \<open>Inr df\<close> when it returns. The handler
  \<^verbatim>\<open>except Exception\<close> also catches the KeyError of \<^verbatim>\<open>dropna\<close>. The result is the
  returned frame and the message passed to \<^verbatim>\<open>st.error\<close>, if any.
\<close>

definition load_data :: "error + frame \<Rightarrow> frame \<times> message option" where
  "load_data csv =
    (case csv of
       Inl e \<Rightarrow> (empty_frame, Some (Error_loading_data e))
     | Inr df \<Rightarrow>
         (case dropna required df of
            Inl e \<Rightarrow> (empty_frame, Some (Error_loading_data e))
          | Inr d \<Rightarrow> (d, None)))"

section \<open>Series operations of pandas\<close>

text \<open>The non-null values of a column, in row order (\<^verbatim>\<open>Series.dropna\<close>).\<close>

definition dropna_series :: "'a option list \<Rightarrow> 'a list" where
  "dropna_series xs = List.map_filter (\<lambda>x. x) xs"

text \<open>\<^verbatim>\<open>df[c]\<close>: the column, or KeyError when \<open>c\<close> is not a column label.\<close>

definition getcol :: "frame \<Rightarrow> string \<Rightarrow> (listing \<Rightarrow> 'a option) \<Rightarrow> error + 'a option list" where
  "getcol df c field = (if c \<in> set (columns df) then Inr (map field (rows df)) else Inl (KeyError [c]))"

text \<open>\<^verbatim>\<open>Series.nunique()\<close>: the number of distinct non-null values.\<close>

definition nunique :: "'a option list \<Rightarrow> nat" where
  "nunique xs = length (remdups (dropna_series xs))"

text \<open>\<^verbatim>\<open>Series.mean()\<close>: nulls are skipped; \<open>None\<close> stands for the NaN of a column with
  no value.\<close>

definition mean :: "real option list \<Rightarrow> real option" where
  "mean xs =
    (let vs = dropna_series xs in
     if vs = [] then None else Some (sum_list vs / real (length vs)))"

text \<open>\<^verbatim>\<open>Series.median()\<close> on the non-null values \<open>vs\<close> (not empty): the middle one
  of the sorted values, or the mean of the two middle ones.\<close>

definition median :: "real list \<Rightarrow> real" where
  "median vs =
    (let s = sort vs; n = length s in
     if odd n then s ! (n div 2) else (s ! (n div 2 - 1) + s ! (n div 2)) / 2)"

text \<open>Python's \<^verbatim>\<open>int(x)\<close> on a float: truncation toward zero.\<close>

definition py_int :: "real \<Rightarrow> int" where
  "py_int x = (if 0 \<le> x then \<lfloor>x\<rfloor> else \<lceil>x\<rceil>)"

text \<open>The highest number of occurrences of a value in \<open>vs\<close>.\<close>

definition max_count :: "'a list \<Rightarrow> nat" where
  "max_count vs = foldr max (map (count_list vs) vs) 0"

text \<open>The distinct values of \<open>vs\<close> in the order of their first appearance.\<close>

definition unique :: "'a list \<Rightarrow> 'a list" where
  "unique vs = rev (remdups (rev vs))"

text \<open>The values are all strings or all numbers.\<close>

definition uniform :: "cell list \<Rightarrow> bool" where
  "uniform vs \<longleftrightarrow> list_all is_str vs \<or> list_all (\<lambda>c. \<not> is_str c) vs"

text \<open>
  \<^verbatim>\<open>Series.mode()\<close>: nulls are dropped and the values that occur most often are
  collected in the order of their first appearance; pandas then sorts them, numbers by
  value and strings character by character. When the modes hold a number and a string
  the sort raises TypeError, which pandas catches (it warns), leaving them as collected.
\<close>

definition mode :: "cell option list \<Rightarrow> cell list" where
  "mode xs =
    (let vs = dropna_series xs;
         modes = unique (filter (\<lambda>v. count_list vs v = max_count vs) vs)
     in if uniform modes then sort modes else modes)"

section \<open>Models by Company\<close>

text \<open>The aggregation lambdas of \<^verbatim>\<open>groupby('model').agg\<close>:
  \<^verbatim>\<open>lambda x: x.mode().iat[0] if not x.mode().empty else 'N/A'\<close> and
  \<^verbatim>\<open>lambda x: int(x.median()) if not x.isnull().all() else 'N/A'\<close>.\<close>

definition mode_or_NA :: "cell option list \<Rightarrow> cell" where
  "mode_or_NA x = (case mode x of [] \<Rightarrow> Str ''N/A'' | v # _ \<Rightarrow> v)"

datatype year_cell = Year int | Year_NA

definition median_or_NA :: "real option list \<Rightarrow> year_cell" where
  "median_or_NA x =
    (let vs = dropna_series x in
     if vs = [] then Year_NA else Year (py_int (median vs)))"

record model_summary =
  ms_model :: cell
  ms_price :: "real option"
  ms_drive :: cell
  ms_type :: cell
  ms_transmission :: cell
  ms_fuel :: cell
  ms_cylinders :: cell
  ms_year :: year_cell

text \<open>\<^verbatim>\<open>groupby('model')\<close>: one group per distinct non-null model, the keys sorted
  ascending (\<^verbatim>\<open>sort=True\<close> is the default; numbers by value, strings character by
  character, numbers before strings), each group holding its rows in row order.\<close>

definition groupby_model :: "listing list \<Rightarrow> (cell \<times> listing list) list" where
  "groupby_model rs =
    map (\<lambda>k. (k, filter (\<lambda>r. model r = Some k) rs))
      (sort (remdups (dropna_series (map model rs))))"

definition agg :: "cell \<times> listing list \<Rightarrow> model_summary" where
  "agg kg =
    (case kg of (k, g) \<Rightarrow>
      \<lparr>ms_model = k,
       ms_price = mean (map price g),
       ms_drive = mode_or_NA (map drive g),
       ms_type = mode_or_NA (map vtype g),
       ms_transmission = mode_or_NA (map transmission g),
       ms_fuel = mode_or_NA (map fuel g),
       ms_cylinders = mode_or_NA (map cylinders g),
       ms_year = median_or_NA (map year g)\<rparr>)"

text \<open>What a page shows: a warning (\<^verbatim>\<open>st.warning\<close>) or its content.\<close>

datatype 'a page = Warning string | Rendered 'a

text \<open>
  Two functions of the Python library are parameters of the model. \<open>str_lower\<close> is
  \<^verbatim>\<open>str.lower\<close>. \<open>re_compile\<close> is the regular expression engine:
  \<open>re_compile pat\<close> is \<open>Inl e\<close> when \<^verbatim>\<open>re.compile(pat)\<close> raises, and \<open>Inr m\<close> with
  \<open>m s\<close> the truth of \<^verbatim>\<open>re.search(pat, s) is not None\<close> otherwise.
\<close>

type_synonym regex_engine = "string \<Rightarrow> error + (string \<Rightarrow> bool)"

text \<open>
  \<^verbatim>\<open>brand_df[brand_df['model'].str.lower().str.contains(pat)]\<close>. The \<^verbatim>\<open>.str\<close>
  accessor raises AttributeError when the values are numbers and none is a string.
  \<^verbatim>\<open>str.contains\<close> is called with its defaults, so \<open>pat\<close> is compiled as a regular
  expression (\<^verbatim>\<open>regex=True\<close>) and each lower-cased string is searched with it; a
  number among strings gives NaN in the mask, and indexing with such a mask raises
  ValueError.
\<close>

definition str_contains ::
    "(string \<Rightarrow> string) \<Rightarrow> regex_engine \<Rightarrow> string \<Rightarrow> listing list \<Rightarrow> error + listing list" where
  "str_contains str_lower re_compile pat rs =
    (let cells = dropna_series (map model rs) in
     if cells \<noteq> [] \<and> list_all (\<lambda>c. \<not> is_str c) cells then Inl AttributeError
     else
       (case re_compile pat of
          Inl e \<Rightarrow> Inl e
        | Inr m \<Rightarrow>
            if list_all (\<lambda>r. case model r of None \<Rightarrow> False | Some c \<Rightarrow> is_str c) rs
            then Inr (filter (\<lambda>r. case model r of
                                   Some (Str s) \<Rightarrow> m (str_lower s)
                                 | _ \<Rightarrow> False) rs)
            else Inl ValueError))"

text \<open>
  The page "Models by Company" (\<open>modelsForManufacturer\<close> in the specification), for the
  brand chosen in the select box and the text typed in the search box. After the guard on
  the columns no label can be missing, so the rows are filtered directly.
\<close>

definition modelsForManufacturer ::
    "(string \<Rightarrow> string) \<Rightarrow> regex_engine \<Rightarrow> frame \<Rightarrow> string \<Rightarrow> string \<Rightarrow>
       error + model_summary list page" where
  "modelsForManufacturer str_lower re_compile df selected_brand text_input =
    (if \<not> df_empty df \<and>
        set [''manufacturer'', ''model'', ''price'', ''drive'', ''type'', ''transmission'',
             ''year'', ''fuel'', ''cylinders''] \<subseteq> set (columns df)
     then
       let brand_df = filter (\<lambda>r. model r \<noteq> None)
                        (filter (\<lambda>r. manufacturer r = Some selected_brand) (rows df));
           search_query = str_lower text_input
       in
         if brand_df \<noteq> [] then
           (case (if search_query \<noteq> []
                  then str_contains str_lower re_compile search_query brand_df
                  else Inr brand_df) of
              Inl e \<Rightarrow> Inl e
            | Inr found \<Rightarrow>
                if found \<noteq> [] then Inr (Rendered (map agg (groupby_model found)))
                else Inr (Warning ''No matching models found.''))
         else Inr (Warning ''No models found for this company.'')
     else Inr (Warning ''Required columns are missing from the dataset.''))"

text \<open>The summaries a page shows: none under a warning.\<close>

definition returned :: "'a list page \<Rightarrow> 'a list" where
  "returned p = (case p of Warning w \<Rightarrow> [] | Rendered xs \<Rightarrow> xs)"

section \<open>Library instances for text of ASCII characters\<close>

text \<open>
  \<^verbatim>\<open>str.lower\<close> on a string of ASCII characters, each a \<open>char\<close>: a letter from
  \<^verbatim>\<open>A\<close> to \<^verbatim>\<open>Z\<close> moves 32 places up, which sets the bit of weight 32 (clear in all
  of them); any other ASCII character stays. Text with other characters is outside this
  instance: the properties of the pages below hold for every \<open>str_lower\<close>, and only the
  evaluations on the example data, which is ASCII, use this one.
\<close>

definition lower_char :: "char \<Rightarrow> char" where
  "lower_char c =
    (if CHR ''A'' \<le> c \<and> c \<le> CHR ''Z''
     then (case c of Char b0 b1 b2 b3 b4 b5 b6 b7 \<Rightarrow> Char b0 b1 b2 b3 b4 True b6 b7)
     else c)"

definition ascii_lower :: "string \<Rightarrow> string" where
  "ascii_lower s = map lower_char s"

text \<open>
  A regular expression engine for the patterns whose only special character is the dot:
  an ordinary character matches itself, \<^verbatim>\<open>.\<close> matches any character but the newline,
  and \<^verbatim>\<open>re.search\<close> tries every start position. A pattern with another special character
  is outside this fragment (\<open>NotModelled\<close>).
\<close>

fun match_here :: "string \<Rightarrow> string \<Rightarrow> bool" where
  "match_here [] s = True"
| "match_here (p # ps) [] = False"
| "match_here (p # ps) (c # cs) =
     ((if p = CHR ''.'' then c \<noteq> CHR 0x0A else p = c) \<and> match_here ps cs)"

fun re_search :: "string \<Rightarrow> string \<Rightarrow> bool" where
  "re_search p [] = match_here p []"
| "re_search p (c # cs) = (match_here p (c # cs) \<or> re_search p cs)"

definition re_special :: "char list" where
  "re_special = [CHR ''^'', CHR ''$'', CHR ''*'', CHR ''+'', CHR ''?'', CHR ''{'', CHR ''}'',
                 CHR ''['', CHR '']'', CHR 0x5C, CHR ''|'', CHR ''('', CHR '')'']"

definition re_dot :: regex_engine where
  "re_dot pat =
    (if list_all (\<lambda>c. c \<notin> set re_special) pat then Inr (re_search pat) else Inl NotModelled)"

section \<open>Home page\<close>

record metrics =
  totalListings :: nat
  uniqueManufacturers :: nat
  uniqueModels :: nat

text \<open>The three metrics of the home page (\<open>summaryMetrics\<close> in the specification):
  \<^verbatim>\<open>len(df)\<close>, \<^verbatim>\<open>df['manufacturer'].nunique()\<close>, \<^verbatim>\<open>df['model'].nunique()\<close>. The
  page has no guard on the columns.\<close>

definition summaryMetrics :: "frame \<Rightarrow> error + metrics" where
  "summaryMetrics df =
    (case getcol df ''manufacturer'' manufacturer of
       Inl e \<Rightarrow> Inl e
     | Inr ms \<Rightarrow>
         (case getcol df ''model'' model of
            Inl e \<Rightarrow> Inl e
          | Inr mo \<Rightarrow>
              Inr \<lparr>totalListings = length (rows df),
                   uniqueManufacturers = nunique ms,
                   uniqueModels = nunique mo\<rparr>))"

section \<open>Brand-specific heatmap\<close>

record heat =
  center :: "real option \<times> real option"
  points :: "(real option \<times> real option) list"

text \<open>The page "Brand-Specific Heatmap" (\<open>brandHeatPoints\<close> in the specification): the
  location of the map and the data of the heat layer.\<close>

definition brandHeatPoints :: "frame \<Rightarrow> string \<Rightarrow> heat page" where
  "brandHeatPoints df selected_brand =
    (if \<not> df_empty df \<and> set [''manufacturer'', ''lat'', ''long''] \<subseteq> set (columns df) then
       let brand_df = filter (\<lambda>r. manufacturer r = Some selected_brand) (rows df) in
       if brand_df \<noteq> [] then
         Rendered \<lparr>center = (mean (map lat brand_df), mean (map long brand_df)),
                   points = map (\<lambda>row. (lat row, long row)) brand_df\<rparr>
       else Warning ''No data available for this manufacturer.''
     else Warning ''Required columns ('manufacturer', 'lat', 'long') not found in dataset.'')"

section \<open>Properties the claims speak of\<close>

text \<open>\<open>v\<close> is a value of highest frequency among the values \<open>vs\<close>.\<close>

definition most_frequent :: "'a list \<Rightarrow> 'a \<Rightarrow> bool" where
  "most_frequent vs v \<longleftrightarrow> v \<in> set vs \<and> list_all (\<lambda>w. count_list vs w \<le> count_list vs v) vs"

text \<open>\<open>v\<close> is the least, in the order of the values, of the values of highest
  frequency.\<close>

definition least_mode :: "('a::linorder) list \<Rightarrow> 'a \<Rightarrow> bool" where
  "least_mode vs v \<longleftrightarrow> most_frequent vs v \<and> list_all (\<lambda>w. most_frequent vs w \<longrightarrow> v \<le> w) vs"

text \<open>The modal value \<open>v\<close> of the values \<open>vs\<close> of a group: a value of highest
  frequency, and the least of them in the order of the column when the values are all
  numbers (the order of numbers) or all strings (the order of strings).\<close>

definition modal_pick :: "cell list \<Rightarrow> cell \<Rightarrow> bool" where
  "modal_pick vs v \<longleftrightarrow> most_frequent vs v \<and> (uniform vs \<longrightarrow> least_mode vs v)"

text \<open>The value of highest frequency that comes first in row order: the tie-break that
  the specification words.\<close>

definition first_seen_mode :: "'a list \<Rightarrow> 'a option" where
  "first_seen_mode vs = find (most_frequent vs) vs"

text \<open>A summary field \<open>v\<close> computed from the column \<open>x\<close> of a group: \<^verbatim>\<open>N/A\<close> when
  the group has no value, a value of highest frequency otherwise.\<close>

definition modal_or_NA :: "cell option list \<Rightarrow> cell \<Rightarrow> bool" where
  "modal_or_NA x v =
    (if dropna_series x = [] then v = Str ''N/A'' else most_frequent (dropna_series x) v)"

text \<open>The model name \<open>s\<close> contains the search text \<open>q\<close>, case-insensitively, as a
  substring.\<close>

definition contains_ci :: "(string \<Rightarrow> string) \<Rightarrow> string \<Rightarrow> string \<Rightarrow> bool" where
  "contains_ci str_lower q s \<longleftrightarrow> sublist (str_lower q) (str_lower s)"

section \<open>Example data\<close>

definition all_columns :: "string list" where
  "all_columns = [''manufacturer'', ''model'', ''year'', ''price'', ''lat'', ''long'',
                  ''cylinders'', ''fuel'', ''drive'', ''type'', ''transmission'']"

definition f150_a :: listing where
  "f150_a = \<lparr>manufacturer = Some ''ford'', model = Some (Str ''F150''), year = Some 2011,
     price = Some 100, lat = Some 10, long = Some 20, cylinders = Some (Str ''6 cylinders''),
     fuel = Some (Str ''gas''), drive = Some (Str ''rwd''), vtype = None, transmission = None\<rparr>"

definition f150_b :: listing where
  "f150_b = \<lparr>manufacturer = Some ''ford'', model = Some (Str ''F150''), year = Some 2012,
     price = Some 200, lat = Some 30, long = Some 40, cylinders = Some (Str ''8 cylinders''),
     fuel = Some (Str ''gas''), drive = Some (Str ''fwd''), vtype = None,
     transmission = Some (Str ''manual'')\<rparr>"

definition no_price :: listing where
  "no_price = f150_b\<lparr>price := None\<rparr>"

definition mustang :: listing where
  "mustang = f150_a\<lparr>model := Some (Str ''mustang'')\<rparr>"

definition focus :: listing where
  "focus = f150_b\<lparr>model := Some (Str ''focus'')\<rparr>"

text \<open>Two rows of a file whose model column holds numbers only, and two rows of a file
  whose cylinders column holds numbers only.\<close>

definition model_150 :: listing where
  "model_150 = f150_a\<lparr>model := Some (Num 150)\<rparr>"

definition model_20 :: listing where
  "model_20 = f150_b\<lparr>model := Some (Num 20)\<rparr>"

definition cyl_10 :: listing where
  "cyl_10 = f150_a\<lparr>cylinders := Some (Num 10)\<rparr>"

definition cyl_8 :: listing where
  "cyl_8 = f150_b\<lparr>cylinders := Some (Num 8)\<rparr>"

section \<open>The order of cells\<close>

lemma cell_le_simps [simp]:
  "Num x \<le> Num y \<longleftrightarrow> x \<le> y"
  "Num x \<le> Str t \<longleftrightarrow> True"
  "Str s \<le> Num y \<longleftrightarrow> False"
  "Str s \<le> Str t \<longleftrightarrow> s \<le> t"
  by (simp_all add: less_eq_cell_def)

lemma cell_less_simps [simp]:
  "Num x < Num y \<longleftrightarrow> x < y"
  "Num x < Str t \<longleftrightarrow> True"
  "Str s < Num y \<longleftrightarrow> False"
  "Str s < Str t \<longleftrightarrow> s < t"
  by (auto simp: less_cell_def less_eq_cell_def)

section \<open>Loader properties\<close>

lemma dropna_rows:
  "dropna labels df = Inr d \<Longrightarrow>
     rows d = filter (\<lambda>r. list_all (\<lambda>c. \<not> isnull r c) labels) (rows df) \<and> columns d = columns df"
  by (auto simp: dropna_def Let_def split: if_splits)

lemma dropna_ok:
  "set labels \<subseteq> set (columns df) \<Longrightarrow>
     dropna labels df = Inr (df\<lparr>rows := filter (\<lambda>r. list_all (\<lambda>c. \<not> isnull r c) labels) (rows df)\<rparr>)"
  by (auto simp: dropna_def Let_def filter_empty_conv)

lemma dropna_missing:
  "c \<in> set labels \<Longrightarrow> c \<notin> set (columns df) \<Longrightarrow>
     \<exists>cs. c \<in> set cs \<and> dropna labels df = Inl (KeyError cs)"
  by (auto simp: dropna_def Let_def filter_empty_conv)

lemma complete_required:
  "list_all (\<lambda>c. \<not> isnull r c) required \<longleftrightarrow>
     manufacturer r \<noteq> None \<and> model r \<noteq> None \<and> year r \<noteq> None \<and> price r \<noteq> None \<and>
     lat r \<noteq> None \<and> long r \<noteq> None \<and> cylinders r \<noteq> None \<and> fuel r \<noteq> None \<and> drive r \<noteq> None"
  by (simp add: required_def isnull_def)

lemma load_data_rows:
  "r \<in> set (rows (fst (load_data csv))) \<Longrightarrow>
     list_all (\<lambda>c. \<not> isnull r c) required"
  by (auto simp: load_data_def empty_frame_def dest!: dropna_rows split: sum.splits)

lemma load_data_nonempty_columns:
  assumes "rows (fst (load_data csv)) \<noteq> []"
  shows "set required \<subseteq> set (columns (fst (load_data csv)))"
proof (cases csv)
  case (Inl e)
  with assms show ?thesis by (simp add: load_data_def empty_frame_def)
next
  case (Inr df)
  show ?thesis
  proof (cases "dropna required df")
    case (Inl e)
    with Inr assms show ?thesis by (simp add: load_data_def empty_frame_def)
  next
    case r: (Inr d)
    from dropna_rows [OF r] have c: "columns d = columns df" by simp
    have "set required \<subseteq> set (columns df)"
    proof (rule ccontr)
      assume "\<not> set required \<subseteq> set (columns df)"
      then obtain c where "c \<in> set required" "c \<notin> set (columns df)" by blast
      from dropna_missing [OF this] r show False by auto
    qed
    with Inr r c show ?thesis by (simp add: load_data_def)
  qed
qed

section \<open>Series properties\<close>

lemma dropna_series_Nil [simp]: "dropna_series [] = []"
  by (simp add: dropna_series_def List.map_filter_def)

lemma dropna_series_Cons [simp]:
  "dropna_series (x # xs) = (case x of None \<Rightarrow> dropna_series xs | Some v \<Rightarrow> v # dropna_series xs)"
  by (simp add: dropna_series_def List.map_filter_def split: option.splits)

lemma set_dropna_series: "set (dropna_series xs) = {v. Some v \<in> set xs}"
  by (induction xs) (auto split: option.splits)

lemma dropna_series_present:
  "list_all (\<lambda>x. x \<noteq> None) xs \<Longrightarrow> dropna_series xs = map the xs"
  by (induction xs) (auto split: option.splits)

lemma mean_present:
  "list_all (\<lambda>x. x \<noteq> None) xs \<Longrightarrow> xs \<noteq> [] \<Longrightarrow>
     mean xs = Some (sum_list (map the xs) / real (length xs))"
  by (simp add: mean_def dropna_series_present)

text \<open>
  Claim C3. Every row of the frame that \<open>load_data\<close> returns has a value for
  manufacturer, model, year, price, lat, long, cylinders, fuel and drive: whatever
  \<^verbatim>\<open>read_csv\<close> did, a row with a null in one of the nine columns is not in the result.
\<close>

theorem load_data_required_non_null:
  "r \<in> set (rows (fst (load_data csv))) \<Longrightarrow>
     manufacturer r \<noteq> None \<and> model r \<noteq> None \<and> year r \<noteq> None \<and> price r \<noteq> None \<and>
     lat r \<noteq> None \<and> long r \<noteq> None \<and> cylinders r \<noteq> None \<and> fuel r \<noteq> None \<and> drive r \<noteq> None"
  using load_data_rows [of r csv] by (simp add: complete_required)

theorem load_data_required_non_null_witness:
  "rows (fst (load_data (Inr \<lparr>columns = all_columns, rows = [f150_a, no_price]\<rparr>))) = [f150_a] \<and>
   manufacturer f150_a \<noteq> None \<and> model f150_a \<noteq> None \<and> year f150_a \<noteq> None \<and>
   price f150_a \<noteq> None \<and> lat f150_a \<noteq> None \<and> long f150_a \<noteq> None \<and>
   cylinders f150_a \<noteq> None \<and> fuel f150_a \<noteq> None \<and> drive f150_a \<noteq> None"
proof -
  have rs: "rows (fst (load_data (Inr \<lparr>columns = all_columns, rows = [f150_a, no_price]\<rparr>))) = [f150_a]"
    by (simp add: load_data_def dropna_def required_def all_columns_def isnull_def
        f150_a_def f150_b_def no_price_def)
  then have "f150_a \<in> set (rows (fst (load_data (Inr \<lparr>columns = all_columns, rows = [f150_a, no_price]\<rparr>))))"
    by simp
  from load_data_required_non_null [OF this] rs show ?thesis by simp
qed

text \<open>
  Claim C4. When \<^verbatim>\<open>read_csv\<close> raises, and when it returns a frame that lacks one of
  the nine required columns (so that \<^verbatim>\<open>dropna\<close> raises KeyError), \<open>load_data\<close> returns
  the empty frame, which has no rows and no columns, together with an error message naming
  the exception. \<open>load_data\<close> has no error result: nothing is raised to the caller.
\<close>

theorem load_data_failure:
  "load_data (Inl e) = (empty_frame, Some (Error_loading_data e)) \<and>
   (c \<in> set required \<and> c \<notin> set (columns df) \<longrightarrow>
      (\<exists>cs. c \<in> set cs \<and> load_data (Inr df) = (empty_frame, Some (Error_loading_data (KeyError cs))))) \<and>
   rows empty_frame = [] \<and> columns empty_frame = []"
proof -
  have "\<exists>cs. c \<in> set cs \<and> load_data (Inr df) = (empty_frame, Some (Error_loading_data (KeyError cs)))"
    if "c \<in> set required" "c \<notin> set (columns df)"
  proof -
    from dropna_missing [OF that] obtain cs where "c \<in> set cs" "dropna required df = Inl (KeyError cs)"
      by blast
    then show ?thesis by (auto simp: load_data_def)
  qed
  then show ?thesis by (simp add: load_data_def empty_frame_def)
qed

theorem load_data_failure_witness:
  "load_data (Inr \<lparr>columns = remove1 ''price'' all_columns, rows = [f150_a, f150_b]\<rparr>)
     = (empty_frame, Some (Error_loading_data (KeyError [''price''])))"
  using load_data_failure [of _ "''price''" "\<lparr>columns = remove1 ''price'' all_columns, rows = [f150_a, f150_b]\<rparr>"]
  by (simp add: load_data_def dropna_def required_def all_columns_def)

text \<open>
  Claim C10. When the nine required columns are present, the rows that \<open>load_data\<close> keeps
  are exactly the rows of the file with a value in each of the nine: the type and the
  transmission of a row play no part, so a row in which they are null is kept and reaches
  the pages.
\<close>

theorem load_data_keeps_null_type_transmission:
  "set required \<subseteq> set (columns df) \<Longrightarrow>
     r \<in> set (rows (fst (load_data (Inr df)))) \<longleftrightarrow>
       r \<in> set (rows df) \<and>
       manufacturer r \<noteq> None \<and> model r \<noteq> None \<and> year r \<noteq> None \<and> price r \<noteq> None \<and>
       lat r \<noteq> None \<and> long r \<noteq> None \<and> cylinders r \<noteq> None \<and> fuel r \<noteq> None \<and> drive r \<noteq> None"
  by (simp add: load_data_def dropna_ok complete_required)

theorem load_data_keeps_null_type_transmission_witness:
  "f150_a \<in> set (rows (fst (load_data (Inr \<lparr>columns = all_columns, rows = [f150_a, no_price]\<rparr>)))) \<and>
   vtype f150_a = None \<and> transmission f150_a = None"
  using load_data_keeps_null_type_transmission [of "\<lparr>columns = all_columns, rows = [f150_a, no_price]\<rparr>" f150_a]
  by (simp add: required_def all_columns_def f150_a_def)

section \<open>Home page properties\<close>

text \<open>On a frame that has the two columns the metrics are the number of rows and the
  numbers of distinct non-null manufacturers and models; with no rows all three are 0.\<close>

lemma nunique_card: "nunique xs = card {v. Some v \<in> set xs}"
  by (simp add: nunique_def length_remdups_card_conv set_dropna_series)

lemma summaryMetrics_counts:
  assumes "''manufacturer'' \<in> set (columns df)" "''model'' \<in> set (columns df)"
  shows "summaryMetrics df =
    Inr \<lparr>totalListings = length (rows df),
         uniqueManufacturers = card {m. Some m \<in> manufacturer ` set (rows df)},
         uniqueModels = card {m. Some m \<in> model ` set (rows df)}\<rparr>"
  using assms by (simp add: summaryMetrics_def getcol_def nunique_card)

lemma summaryMetrics_no_rows:
  assumes "''manufacturer'' \<in> set (columns df)" "''model'' \<in> set (columns df)" "rows df = []"
  shows "summaryMetrics df = Inr \<lparr>totalListings = 0, uniqueManufacturers = 0, uniqueModels = 0\<rparr>"
  using assms by (simp add: summaryMetrics_counts)

text \<open>
  Claim C1. After a load failure the frame has no column, and the home page, which reads
  the manufacturer column without a guard, raises KeyError instead of showing three zeros.
\<close>

theorem summaryMetrics_after_load_failure:
  "summaryMetrics (fst (load_data (Inl e))) = Inl (KeyError [''manufacturer''])"
  by (simp add: load_data_def empty_frame_def summaryMetrics_def getcol_def)

section \<open>Heatmap properties\<close>

text \<open>
  Claim C6. On the loaded dataset, for a manufacturer with at least one listing, the heatmap
  page is centred on the arithmetic mean of the latitudes and of the longitudes of that
  manufacturer's rows (every one of them has both, so none is skipped), and its points are
  the (lat, long) pairs of these rows, one per row, in row order.
\<close>

theorem brandHeatPoints_mean_center:
  assumes "df = fst (load_data csv)"
    and "sel = filter (\<lambda>r. manufacturer r = Some b) (rows df)"
    and "sel \<noteq> []"
  shows "brandHeatPoints df b =
           Rendered \<lparr>center = (Some (sum_list (map (the \<circ> lat) sel) / real (length sel)),
                              Some (sum_list (map (the \<circ> long) sel) / real (length sel))),
                     points = map (\<lambda>r. (lat r, long r)) sel\<rparr> \<and>
         list_all (\<lambda>r. lat r \<noteq> None \<and> long r \<noteq> None) sel"
proof -
  from assms have ne: "rows df \<noteq> []" by auto
  with assms(1) have cols: "set required \<subseteq> set (columns df)"
    using load_data_nonempty_columns by blast
  then have guard: "\<not> df_empty df \<and> set [''manufacturer'', ''lat'', ''long''] \<subseteq> set (columns df)"
    using ne by (auto simp: df_empty_def required_def)
  have present: "lat r \<noteq> None \<and> long r \<noteq> None" if "r \<in> set sel" for r
  proof -
    from that assms have "r \<in> set (rows (fst (load_data csv)))" by auto
    from load_data_rows [OF this] show ?thesis by (simp add: complete_required)
  qed
  then have la: "list_all (\<lambda>x. x \<noteq> None) (map lat sel)" and lo: "list_all (\<lambda>x. x \<noteq> None) (map long sel)"
    by (auto simp: list_all_iff)
  from \<open>sel \<noteq> []\<close> have "map lat sel \<noteq> []" "map long sel \<noteq> []" by simp_all
  with la lo have m1: "mean (map lat sel) = Some (sum_list (map (the \<circ> lat) sel) / real (length sel))"
    and m2: "mean (map long sel) = Some (sum_list (map (the \<circ> long) sel) / real (length sel))"
    by (simp_all add: mean_present comp_def)
  have "brandHeatPoints df b =
      Rendered \<lparr>center = (mean (map lat sel), mean (map long sel)), points = map (\<lambda>r. (lat r, long r)) sel\<rparr>"
    using guard assms(2,3) unfolding brandHeatPoints_def Let_def by simp
  with m1 m2 present show ?thesis by (simp add: list_all_iff)
qed

theorem brandHeatPoints_mean_center_witness:
  "brandHeatPoints (fst (load_data (Inr \<lparr>columns = all_columns, rows = [f150_a, f150_b]\<rparr>))) ''ford'' =
     Rendered \<lparr>center = (Some 20, Some 30), points = [(Some 10, Some 20), (Some 30, Some 40)]\<rparr>"
proof -
  have rs: "rows (fst (load_data (Inr \<lparr>columns = all_columns, rows = [f150_a, f150_b]\<rparr>))) = [f150_a, f150_b]"
    by (simp add: load_data_def dropna_def required_def all_columns_def isnull_def f150_a_def f150_b_def)
  have sel: "[f150_a, f150_b] = filter (\<lambda>r. manufacturer r = Some ''ford'')
      (rows (fst (load_data (Inr \<lparr>columns = all_columns, rows = [f150_a, f150_b]\<rparr>))))"
    unfolding rs by (simp add: f150_a_def f150_b_def)
  from brandHeatPoints_mean_center [OF refl sel] show ?thesis
    by (simp add: f150_a_def f150_b_def)
qed

section \<open>Models by Company: grouping\<close>

lemma ms_model_agg: "ms_model (agg kg) = fst kg"
  by (cases kg) (simp add: agg_def)

lemma models_of_groups:
  "map ms_model (map agg (groupby_model rs)) = sort (remdups (dropna_series (map model rs)))"
  by (simp add: comp_def ms_model_agg groupby_model_def)

lemma groupby_model_group:
  "(k, g) \<in> set (groupby_model rs) \<Longrightarrow> g = filter (\<lambda>r. model r = Some k) rs \<and> g \<noteq> []"
  by (auto simp: groupby_model_def set_dropna_series filter_empty_conv)

lemma groupby_model_covers:
  assumes "r \<in> set rs" "model r = Some k"
  shows "(k, filter (\<lambda>r. model r = Some k) rs) \<in> set (groupby_model rs)"
  using assms by (force simp: groupby_model_def set_dropna_series)

lemma groupby_model_one_group:
  assumes "(k, g) \<in> set (groupby_model rs)" "(k', g') \<in> set (groupby_model rs)"
    and "r \<in> set g" "r \<in> set g'"
  shows "k = k' \<and> g = g'"
  using assms by (auto dest!: groupby_model_group)

text \<open>
  Claim C9, as the code has it. Whatever the frame, the brand and the search text, the
  summaries of the page come in strictly ascending order of their models, in the order
  of the model column: strings character by character (a proper prefix first), numbers by
  value, numbers before strings. The page is a function of its inputs, so two calls with
  the same inputs give the same sequence.
\<close>

theorem modelsForManufacturer_sorted:
  "modelsForManufacturer str_lower re_compile df b q = Inr pg \<Longrightarrow>
     sorted_wrt (<) (map ms_model (returned pg))"
proof -
  assume a: "modelsForManufacturer str_lower re_compile df b q = Inr pg"
  have s: "sorted_wrt (<) (map (ms_model \<circ> agg) (groupby_model rs))" for rs
    using models_of_groups [of rs] by (simp add: strict_sorted_iff)
  from a show ?thesis
    by (auto simp: modelsForManufacturer_def Let_def returned_def s
        split: if_splits sum.splits)
qed

theorem modelsForManufacturer_sorted_witness:
  "modelsForManufacturer ascii_lower re_dot
       \<lparr>columns = all_columns, rows = [mustang, focus, f150_a, f150_b]\<rparr> ''ford'' []
     = Inr (Rendered (map agg (groupby_model [mustang, focus, f150_a, f150_b]))) \<and>
   map ms_model (returned (Rendered (map agg (groupby_model [mustang, focus, f150_a, f150_b]))))
     = [Str ''F150'', Str ''focus'', Str ''mustang''] \<and>
   sorted_wrt (<) (map ms_model (returned (Rendered (map agg (groupby_model [mustang, focus, f150_a, f150_b])))))"
proof -
  have p: "modelsForManufacturer ascii_lower re_dot
       \<lparr>columns = all_columns, rows = [mustang, focus, f150_a, f150_b]\<rparr> ''ford'' []
     = Inr (Rendered (map agg (groupby_model [mustang, focus, f150_a, f150_b])))"
    by (simp add: modelsForManufacturer_def df_empty_def all_columns_def ascii_lower_def
        mustang_def focus_def f150_a_def f150_b_def)
  have m: "map ms_model (returned (Rendered (map agg (groupby_model [mustang, focus, f150_a, f150_b]))))
     = [Str ''F150'', Str ''focus'', Str ''mustang'']"
    by (simp add: returned_def models_of_groups mustang_def focus_def f150_a_def f150_b_def del: map_map)
  from modelsForManufacturer_sorted [OF p] p m show ?thesis by simp
qed

text \<open>
  Claim C9 as stated fails: in a file whose model column holds numbers only, the models 150
  and 20 of a brand are summarised in the order 20, 150, the order of numbers, while the
  names \<^verbatim>\<open>20\<close> and \<^verbatim>\<open>150\<close> in lexicographic order are 150, 20.
\<close>

theorem numeric_models_order_counterexample:
  "modelsForManufacturer ascii_lower re_dot
       \<lparr>columns = all_columns, rows = [model_150, model_20]\<rparr> ''ford'' []
     = Inr (Rendered (map agg (groupby_model [model_150, model_20]))) \<and>
   map ms_model (map agg (groupby_model [model_150, model_20])) = [Num 20, Num 150] \<and>
   ''150'' < ''20''"
proof -
  have "modelsForManufacturer ascii_lower re_dot
       \<lparr>columns = all_columns, rows = [model_150, model_20]\<rparr> ''ford'' []
     = Inr (Rendered (map agg (groupby_model [model_150, model_20])))"
    by (simp add: modelsForManufacturer_def df_empty_def all_columns_def ascii_lower_def
        model_150_def model_20_def f150_a_def f150_b_def)
  moreover have "map ms_model (map agg (groupby_model [model_150, model_20])) = [Num 20, Num 150]"
    by (simp add: models_of_groups model_150_def model_20_def f150_a_def f150_b_def del: map_map)
  moreover have "''150'' < ''20''" by simp
  ultimately show ?thesis by blast
qed

text \<open>On such a file a search text makes the page fail: the \<^verbatim>\<open>.str\<close> accessor
  refuses a column of numbers.\<close>

lemma numeric_models_search_raises:
  "modelsForManufacturer ascii_lower re_dot
       \<lparr>columns = all_columns, rows = [model_150, model_20]\<rparr> ''ford'' ''15''
     = Inl AttributeError"
  by (simp add: modelsForManufacturer_def df_empty_def all_columns_def ascii_lower_def lower_char_def
      str_contains_def is_str_def model_150_def model_20_def f150_a_def f150_b_def)

section \<open>Modal values\<close>

lemma foldr_max_ge: "n \<in> set ns \<Longrightarrow> n \<le> foldr max ns (0::nat)"
  by (induction ns) (auto simp: max_def)

lemma foldr_max_mem: "ns \<noteq> [] \<Longrightarrow> foldr max ns (0::nat) \<in> set ns"
proof (induction ns)
  case Nil
  then show ?case by simp
next
  case (Cons n ns)
  show ?case
  proof (cases "ns = []")
    case True
    then show ?thesis by simp
  next
    case False
    with Cons.IH show ?thesis by (auto simp: max_def)
  qed
qed

lemma count_le_max_count: "count_list vs w \<le> max_count vs"
proof (cases "w \<in> set vs")
  case True
  then show ?thesis unfolding max_count_def by (intro foldr_max_ge) simp
next
  case False
  then show ?thesis by simp
qed

lemma max_count_attained: "vs \<noteq> [] \<Longrightarrow> \<exists>v\<in>set vs. count_list vs v = max_count vs"
proof -
  assume "vs \<noteq> []"
  then have "map (count_list vs) vs \<noteq> []" by simp
  from foldr_max_mem [OF this] show ?thesis by (auto simp: max_count_def)
qed

lemma most_frequent_iff:
  "most_frequent vs v \<longleftrightarrow> v \<in> set vs \<and> count_list vs v = max_count vs"
proof
  assume mf: "most_frequent vs v"
  then have v: "v \<in> set vs" and le: "\<forall>w\<in>set vs. count_list vs w \<le> count_list vs v"
    by (auto simp: most_frequent_def list_all_iff)
  from v have "vs \<noteq> []" by auto
  from max_count_attained [OF this] obtain u where "u \<in> set vs" "count_list vs u = max_count vs"
    by blast
  with le have "max_count vs \<le> count_list vs v" by metis
  with count_le_max_count [of vs v] v show "v \<in> set vs \<and> count_list vs v = max_count vs" by simp
next
  assume "v \<in> set vs \<and> count_list vs v = max_count vs"
  then show "most_frequent vs v"
    by (simp add: most_frequent_def list_all_iff count_le_max_count)
qed

lemma set_unique [simp]: "set (unique vs) = set vs"
  by (simp add: unique_def)

lemma uniform_subset: "set ms \<subseteq> set vs \<Longrightarrow> uniform vs \<Longrightarrow> uniform ms"
  by (auto simp: uniform_def list_all_iff)

lemma set_mode: "set (mode xs) = {v. most_frequent (dropna_series xs) v}"
  by (auto simp: mode_def Let_def most_frequent_iff)

lemma sorted_mode: "uniform (dropna_series xs) \<Longrightarrow> sorted (mode xs)"
proof -
  assume u: "uniform (dropna_series xs)"
  have "uniform (unique (filter (\<lambda>v. count_list (dropna_series xs) v = max_count (dropna_series xs))
          (dropna_series xs)))"
    by (rule uniform_subset [OF _ u]) auto
  then show ?thesis by (simp add: mode_def Let_def)
qed

lemma mode_empty_iff: "mode xs = [] \<longleftrightarrow> dropna_series xs = []"
proof
  assume "mode xs = []"
  then have e: "{v. most_frequent (dropna_series xs) v} = {}" using set_mode [of xs] by simp
  show "dropna_series xs = []"
  proof (rule ccontr)
    assume "dropna_series xs \<noteq> []"
    from max_count_attained [OF this] e show False by (auto simp: most_frequent_iff)
  qed
next
  assume "dropna_series xs = []"
  then show "mode xs = []" using set_mode [of xs] by (auto simp: most_frequent_def)
qed

lemma mode_or_NA_none: "dropna_series x = [] \<Longrightarrow> mode_or_NA x = Str ''N/A''"
  using mode_empty_iff [of x] by (simp add: mode_or_NA_def)

lemma mode_or_NA_in_mode: "dropna_series x \<noteq> [] \<Longrightarrow> \<exists>ms. mode x = mode_or_NA x # ms"
proof -
  assume "dropna_series x \<noteq> []"
  then have "mode x \<noteq> []" by (simp add: mode_empty_iff)
  then obtain v ms where "mode x = v # ms" by (cases "mode x") auto
  then show ?thesis by (simp add: mode_or_NA_def)
qed

lemma mode_or_NA_most_frequent:
  assumes "dropna_series x \<noteq> []"
  shows "most_frequent (dropna_series x) (mode_or_NA x)"
proof -
  from mode_or_NA_in_mode [OF assms] have "mode_or_NA x \<in> set (mode x)" by auto
  then show ?thesis by (simp add: set_mode)
qed

lemma mode_or_NA_least:
  assumes "dropna_series x \<noteq> []" "uniform (dropna_series x)"
  shows "least_mode (dropna_series x) (mode_or_NA x)"
proof -
  from mode_or_NA_in_mode [OF assms(1)] obtain ms where m: "mode x = mode_or_NA x # ms" by blast
  have "mode_or_NA x \<le> w" if "most_frequent (dropna_series x) w" for w
  proof -
    from that have "w \<in> set (mode x)" by (simp add: set_mode)
    with m sorted_mode [OF assms(2)] show ?thesis by auto
  qed
  with mode_or_NA_most_frequent [OF assms(1)] show ?thesis
    by (simp add: least_mode_def list_all_iff)
qed

lemma mode_or_NA_pick:
  "dropna_series x \<noteq> [] \<Longrightarrow> modal_pick (dropna_series x) (mode_or_NA x)"
  by (simp add: modal_pick_def mode_or_NA_most_frequent mode_or_NA_least)

lemma mode_or_NA_modal: "modal_or_NA x (mode_or_NA x)"
  using mode_or_NA_none [of x] mode_or_NA_most_frequent [of x]
  by (auto simp: modal_or_NA_def)

lemma agg_fields:
  "ms_price (agg (k, g)) = mean (map price g)"
  "ms_drive (agg (k, g)) = mode_or_NA (map drive g)"
  "ms_type (agg (k, g)) = mode_or_NA (map vtype g)"
  "ms_transmission (agg (k, g)) = mode_or_NA (map transmission g)"
  "ms_fuel (agg (k, g)) = mode_or_NA (map fuel g)"
  "ms_cylinders (agg (k, g)) = mode_or_NA (map cylinders g)"
  "ms_year (agg (k, g)) = median_or_NA (map year g)"
  by (simp_all add: agg_def)

text \<open>
  Claim C2, as the code has it. In the summary of a group, the drive, type, transmission,
  fuel and cylinders are each, when the group has a value for the field, a value of highest
  frequency among the group's values. When several values share the highest frequency the
  one chosen is the least in the order of the column, the order of strings for a column
  of strings and the order of numbers for a column of numbers (pandas returns the modes
  sorted and the page takes the first), not the one that comes first in row order. Drive
  values \<^verbatim>\<open>fwd, fwd, rwd\<close> give \<^verbatim>\<open>fwd\<close>.
\<close>

theorem modal_value_least_of_most_frequent:
  "(dropna_series (map drive g) \<noteq> [] \<longrightarrow>
      modal_pick (dropna_series (map drive g)) (ms_drive (agg (k, g)))) \<and>
   (dropna_series (map vtype g) \<noteq> [] \<longrightarrow>
      modal_pick (dropna_series (map vtype g)) (ms_type (agg (k, g)))) \<and>
   (dropna_series (map transmission g) \<noteq> [] \<longrightarrow>
      modal_pick (dropna_series (map transmission g)) (ms_transmission (agg (k, g)))) \<and>
   (dropna_series (map fuel g) \<noteq> [] \<longrightarrow>
      modal_pick (dropna_series (map fuel g)) (ms_fuel (agg (k, g)))) \<and>
   (dropna_series (map cylinders g) \<noteq> [] \<longrightarrow>
      modal_pick (dropna_series (map cylinders g)) (ms_cylinders (agg (k, g))))"
  by (simp add: agg_fields mode_or_NA_pick)

theorem modal_value_least_of_most_frequent_witness:
  "ms_drive (agg (Str ''F150'', [f150_b, f150_b, f150_a])) = Str ''fwd'' \<and>
   map drive [f150_b, f150_b, f150_a] = [Some (Str ''fwd''), Some (Str ''fwd''), Some (Str ''rwd'')] \<and>
   modal_pick [Str ''fwd'', Str ''fwd'', Str ''rwd''] (Str ''fwd'') \<and>
   ms_cylinders (agg (Str ''F150'', [cyl_10, cyl_8])) = Num 8 \<and>
   map cylinders [cyl_10, cyl_8] = [Some (Num 10), Some (Num 8)] \<and>
   modal_pick [Num 10, Num 8] (Num 8)"
proof -
  have d: "map drive [f150_b, f150_b, f150_a] = [Some (Str ''fwd''), Some (Str ''fwd''), Some (Str ''rwd'')]"
    by (simp add: f150_a_def f150_b_def)
  have v: "ms_drive (agg (Str ''F150'', [f150_b, f150_b, f150_a])) = Str ''fwd''"
    unfolding agg_fields d
    by (simp add: mode_or_NA_def mode_def max_count_def unique_def uniform_def is_str_def)
  from modal_value_least_of_most_frequent [of "[f150_b, f150_b, f150_a]" "Str ''F150''"]
  have "modal_pick (dropna_series (map drive [f150_b, f150_b, f150_a]))
          (ms_drive (agg (Str ''F150'', [f150_b, f150_b, f150_a])))"
    unfolding d by simp
  then have p: "modal_pick [Str ''fwd'', Str ''fwd'', Str ''rwd''] (Str ''fwd'')"
    unfolding v d by simp
  have c: "map cylinders [cyl_10, cyl_8] = [Some (Num 10), Some (Num 8)]"
    by (simp add: cyl_10_def cyl_8_def f150_a_def f150_b_def)
  have w: "ms_cylinders (agg (Str ''F150'', [cyl_10, cyl_8])) = Num 8"
    unfolding agg_fields c
    by (simp add: mode_or_NA_def mode_def max_count_def unique_def uniform_def is_str_def)
  from modal_value_least_of_most_frequent [of "[cyl_10, cyl_8]" "Str ''F150''"]
  have "modal_pick (dropna_series (map cylinders [cyl_10, cyl_8]))
          (ms_cylinders (agg (Str ''F150'', [cyl_10, cyl_8])))"
    unfolding c by simp
  then have q: "modal_pick [Num 10, Num 8] (Num 8)"
    unfolding w c by simp
  from d v p c w q show ?thesis by simp
qed

text \<open>
  Claim C2 as stated fails: for a group whose drive values are \<^verbatim>\<open>rwd, fwd\<close> both have
  the highest frequency, \<^verbatim>\<open>rwd\<close> comes first in row order, and the summary shows
  \<^verbatim>\<open>fwd\<close>.
\<close>

theorem first_seen_tie_break_counterexample:
  "ms_drive (agg (Str ''F150'', [f150_a, f150_b])) = Str ''fwd'' \<and>
   first_seen_mode (dropna_series (map drive [f150_a, f150_b])) = Some (Str ''rwd'')"
  by (simp add: agg_fields f150_a_def f150_b_def mode_or_NA_def mode_def max_count_def
      unique_def uniform_def is_str_def first_seen_mode_def most_frequent_def)

section \<open>Summary of a group\<close>

lemma median_or_NA_present:
  assumes "g \<noteq> []" "list_all (\<lambda>r. year r \<noteq> None) g"
  shows "median_or_NA (map year g) = Year (py_int (median (map (the \<circ> year) g)))"
proof -
  from assms(2) have "list_all (\<lambda>x. x \<noteq> None) (map year g)" by (simp add: list_all_iff)
  then have "dropna_series (map year g) = map (the \<circ> year) g"
    by (simp add: dropna_series_present comp_def)
  with assms(1) show ?thesis by (simp add: median_or_NA_def)
qed

text \<open>
  Claim C8, as the code has it. The summary of a group holds: the arithmetic mean of the
  group's prices; the median of the group's years (the middle one of the sorted years, or
  the mean of the two middle ones) cut to an integer by \<^verbatim>\<open>int\<close>, that is truncated
  toward zero and not rounded to the nearest integer (\<^verbatim>\<open>N/A\<close> when the group has no
  year); and for drive, type, transmission, fuel and cylinders a value of highest frequency
  in the group, or \<^verbatim>\<open>N/A\<close> when the group has no value for the field.
\<close>

theorem model_summary_aggregates:
  "(g \<noteq> [] \<and> list_all (\<lambda>r. price r \<noteq> None) g \<longrightarrow>
      ms_price (agg (k, g)) = Some (sum_list (map (the \<circ> price) g) / real (length g))) \<and>
   (g \<noteq> [] \<and> list_all (\<lambda>r. year r \<noteq> None) g \<longrightarrow>
      ms_year (agg (k, g)) =
        Year (if 0 \<le> median (map (the \<circ> year) g) then \<lfloor>median (map (the \<circ> year) g)\<rfloor>
              else \<lceil>median (map (the \<circ> year) g)\<rceil>)) \<and>
   (list_all (\<lambda>r. year r = None) g \<longrightarrow> ms_year (agg (k, g)) = Year_NA) \<and>
   modal_or_NA (map drive g) (ms_drive (agg (k, g))) \<and>
   modal_or_NA (map vtype g) (ms_type (agg (k, g))) \<and>
   modal_or_NA (map transmission g) (ms_transmission (agg (k, g))) \<and>
   modal_or_NA (map fuel g) (ms_fuel (agg (k, g))) \<and>
   modal_or_NA (map cylinders g) (ms_cylinders (agg (k, g)))"
proof -
  have p: "ms_price (agg (k, g)) = Some (sum_list (map (the \<circ> price) g) / real (length g))"
    if "g \<noteq> []" "list_all (\<lambda>r. price r \<noteq> None) g"
  proof -
    from that(2) have "list_all (\<lambda>x. x \<noteq> None) (map price g)" by (simp add: list_all_iff)
    with that(1) show ?thesis by (simp add: agg_fields mean_present comp_def)
  qed
  have y: "ms_year (agg (k, g)) =
      Year (if 0 \<le> median (map (the \<circ> year) g) then \<lfloor>median (map (the \<circ> year) g)\<rfloor>
            else \<lceil>median (map (the \<circ> year) g)\<rceil>)"
    if "g \<noteq> []" "list_all (\<lambda>r. year r \<noteq> None) g"
    using that by (simp add: agg_fields median_or_NA_present py_int_def)
  have na: "ms_year (agg (k, g)) = Year_NA" if "list_all (\<lambda>r. year r = None) g"
  proof -
    from that have "{v. Some v \<in> set (map year g)} = {}" by (auto simp: list_all_iff)
    then have "dropna_series (map year g) = []"
      using set_dropna_series [of "map year g"] by simp
    then show ?thesis by (simp add: agg_fields median_or_NA_def)
  qed
  from p y na show ?thesis by (simp add: agg_fields mode_or_NA_modal)
qed

theorem model_summary_aggregates_witness:
  "ms_price (agg (Str ''F150'', [f150_a, f150_b])) = Some 150 \<and>
   median (map (the \<circ> year) [f150_a, f150_b]) = 4023 / 2 \<and>
   ms_year (agg (Str ''F150'', [f150_a, f150_b])) = Year 2011 \<and>
   ms_type (agg (Str ''F150'', [f150_a, f150_b])) = Str ''N/A'' \<and>
   modal_or_NA [None, Some (Str ''manual'')] (ms_transmission (agg (Str ''F150'', [f150_a, f150_b]))) \<and>
   ms_transmission (agg (Str ''F150'', [f150_a, f150_b])) = Str ''manual''"
proof -
  note t = model_summary_aggregates [of "[f150_a, f150_b]" "Str ''F150''"]
  have g: "[f150_a, f150_b] \<noteq> []" "list_all (\<lambda>r. price r \<noteq> None) [f150_a, f150_b]"
    "list_all (\<lambda>r. year r \<noteq> None) [f150_a, f150_b]"
    by (simp_all add: f150_a_def f150_b_def)
  have c: "map (the \<circ> price) [f150_a, f150_b] = [100, 200]"
    "map (the \<circ> year) [f150_a, f150_b] = [2011, 2012]"
    "map transmission [f150_a, f150_b] = [None, Some (Str ''manual'')]"
    "map vtype [f150_a, f150_b] = [None, None]"
    by (simp_all add: f150_a_def f150_b_def)
  have md: "median [2011, 2012] = 4023 / 2" by (simp add: median_def)
  from t g have "ms_price (agg (Str ''F150'', [f150_a, f150_b])) = Some 150"
    unfolding c by simp
  moreover have "median (map (the \<circ> year) [f150_a, f150_b]) = 4023 / 2"
    unfolding c by (rule md)
  moreover from t g have "ms_year (agg (Str ''F150'', [f150_a, f150_b])) = Year 2011"
    unfolding c md by simp
  moreover from t have "modal_or_NA [None, None] (ms_type (agg (Str ''F150'', [f150_a, f150_b])))"
    unfolding c by blast
  then have "ms_type (agg (Str ''F150'', [f150_a, f150_b])) = Str ''N/A''"
    by (simp add: modal_or_NA_def)
  moreover from t have "modal_or_NA [None, Some (Str ''manual'')]
      (ms_transmission (agg (Str ''F150'', [f150_a, f150_b])))"
    unfolding c by blast
  moreover have "ms_transmission (agg (Str ''F150'', [f150_a, f150_b])) = Str ''manual''"
    using calculation(5) by (simp add: modal_or_NA_def most_frequent_def)
  ultimately show ?thesis by blast
qed

text \<open>
  Claim C8 as stated fails on the year: a group with the years 2011 and 2012 has the median
  2011.5, which rounds to 2012, and the summary shows 2011.
\<close>

theorem median_year_rounded_counterexample:
  "ms_year (agg (Str ''F150'', [f150_a, f150_b])) = Year 2011 \<and>
   median (dropna_series (map year [f150_a, f150_b])) = 4023 / 2 \<and>
   round (4023 / 2 :: real) = 2012"
  by (simp add: agg_fields f150_a_def f150_b_def median_or_NA_def median_def py_int_def round_def)

section \<open>Models by Company: search\<close>

lemma match_here_literal:
  "CHR ''.'' \<notin> set p \<Longrightarrow> match_here p s \<longleftrightarrow> prefix p s"
  by (induction p s rule: match_here.induct) auto

lemma re_search_literal:
  "CHR ''.'' \<notin> set p \<Longrightarrow> re_search p s \<longleftrightarrow> sublist p s"
proof (induction s)
  case Nil
  then show ?case by (cases p) (simp_all add: match_here_literal)
next
  case (Cons c cs)
  then show ?case by (simp add: match_here_literal sublist_Cons_right)
qed

text \<open>For a search text without special characters, on models that are strings, the rows
  kept are those whose model contains the text case-insensitively.\<close>

lemma str_contains_literal:
  assumes "list_all (\<lambda>c. c \<notin> set re_special \<and> c \<noteq> CHR ''.'') (str_lower q)"
    and "list_all (\<lambda>r. case model r of None \<Rightarrow> False | Some c \<Rightarrow> is_str c) rs"
  shows "str_contains str_lower re_dot (str_lower q) rs =
           Inr (filter (\<lambda>r. case model r of Some (Str s) \<Rightarrow> contains_ci str_lower q s | _ \<Rightarrow> False) rs)"
proof -
  from assms(1) have a: "list_all (\<lambda>c. c \<notin> set re_special) (str_lower q)"
    and b: "CHR ''.'' \<notin> set (str_lower q)"
    by (auto simp: list_all_iff)
  from b have r: "re_search (str_lower q) s \<longleftrightarrow> sublist (str_lower q) s" for s
    by (rule re_search_literal)
  have n: "\<not> (dropna_series (map model rs) \<noteq> [] \<and> list_all (\<lambda>c. \<not> is_str c) (dropna_series (map model rs)))"
  proof
    assume h: "dropna_series (map model rs) \<noteq> [] \<and> list_all (\<lambda>c. \<not> is_str c) (dropna_series (map model rs))"
    then obtain c where c: "c \<in> set (dropna_series (map model rs))" by (cases "dropna_series (map model rs)") auto
    with h have "\<not> is_str c" by (auto simp: list_all_iff)
    moreover from c obtain r where "r \<in> set rs" "model r = Some c" by (auto simp: set_dropna_series)
    with assms(2) have "is_str c" by (auto simp: list_all_iff)
    ultimately show False by simp
  qed
  show ?thesis
    using a assms(2) n
    by (simp add: str_contains_def Let_def re_dot_def contains_ci_def r
        cong: option.case_cong cell.case_cong)
qed

lemma modelsForManufacturer_rendered:
  assumes "modelsForManufacturer str_lower re_compile df b q = Inr (Rendered xs)"
  shows "\<exists>found. xs = map agg (groupby_model found) \<and> found \<noteq> [] \<and>
           set found \<subseteq> {r \<in> set (rows df). manufacturer r = Some b \<and> model r \<noteq> None}"
  using assms
  by (auto simp: modelsForManufacturer_def Let_def str_contains_def
      split: if_splits sum.splits)

text \<open>
  Claim C7. The search text reaches \<^verbatim>\<open>str.contains\<close> as a regular expression, so the
  rows that are grouped are those the expression matches, not those whose model contains
  the text: with the search text \<^verbatim>\<open>.\<close> every model of the brand is summarised, though
  no model name contains a dot.
\<close>

theorem search_text_is_a_regex:
  "modelsForManufacturer ascii_lower re_dot
       \<lparr>columns = all_columns, rows = [mustang, focus, f150_a, f150_b]\<rparr> ''ford'' ''.''
     = Inr (Rendered (map agg (groupby_model [mustang, focus, f150_a, f150_b]))) \<and>
   map ms_model (map agg (groupby_model [mustang, focus, f150_a, f150_b]))
     = [Str ''F150'', Str ''focus'', Str ''mustang''] \<and>
   \<not> contains_ci ascii_lower ''.'' ''F150'' \<and> \<not> contains_ci ascii_lower ''.'' ''focus'' \<and>
   \<not> contains_ci ascii_lower ''.'' ''mustang''"
proof -
  have "modelsForManufacturer ascii_lower re_dot
       \<lparr>columns = all_columns, rows = [mustang, focus, f150_a, f150_b]\<rparr> ''ford'' ''.''
     = Inr (Rendered (map agg (groupby_model [mustang, focus, f150_a, f150_b])))"
    by (simp add: modelsForManufacturer_def df_empty_def all_columns_def ascii_lower_def lower_char_def
        str_contains_def is_str_def re_dot_def re_special_def mustang_def focus_def f150_a_def f150_b_def)
  moreover have "map ms_model (map agg (groupby_model [mustang, focus, f150_a, f150_b]))
      = [Str ''F150'', Str ''focus'', Str ''mustang'']"
    by (simp add: models_of_groups mustang_def focus_def f150_a_def f150_b_def del: map_map)
  moreover have "\<not> contains_ci ascii_lower ''.'' ''F150'' \<and> \<not> contains_ci ascii_lower ''.'' ''focus'' \<and>
      \<not> contains_ci ascii_lower ''.'' ''mustang''"
    by (simp add: contains_ci_def ascii_lower_def lower_char_def sublist_Cons_right)
  ultimately show ?thesis by blast
qed

end
